theory Spec2Isabelle
  imports Complex_Main "HOL-Library.Word"
begin

section \<open>Errors and byte streams\<close>

type_synonym byte = "8 word"

text \<open>
  Go error values that occur in \<^verbatim>\<open>render.go\<close>: the two sentinel errors of
  \<^verbatim>\<open>io.ReadFull\<close>, an error made by \<^verbatim>\<open>errors.New\<close>, an error made by
  \<^verbatim>\<open>fmt.Errorf\<close> with the verb \<^verbatim>\<open>%w\<close> (message prefix and wrapped cause), and an
  error value handed back by one of the external libraries.
\<close>

datatype error =
    EOF
  | ErrUnexpectedEOF
  | New string
  | Errorf string error
  | Foreign string

text \<open>\<^verbatim>\<open>errors.Unwrap\<close>: only an error built with \<^verbatim>\<open>%w\<close> has a cause.\<close>

fun Unwrap :: "error \<Rightarrow> error option" where
  "Unwrap (Errorf msg cause) = Some cause"
| "Unwrap e = None"

text \<open>
  The input of the custom path is an \<^verbatim>\<open>io.ReadCloser\<close>. It is modelled as the bytes
  it has not delivered yet, together with the log of the operations performed on it:
  a read request for a number of bytes, being handed to the scene decoder, and
  \<^verbatim>\<open>Close\<close>.
\<close>

datatype stream_op = OpRead nat | OpExtractScene | OpClose

record reader =
  unread :: "byte list"
  ops :: "stream_op list"

text \<open>
  \<^verbatim>\<open>io.ReadFull(file, buffer)\<close> with a buffer of \<open>n\<close> bytes: exactly \<open>n\<close> bytes are
  read, or the call fails with \<^verbatim>\<open>io.EOF\<close> when the stream had no byte left and with
  \<^verbatim>\<open>io.ErrUnexpectedEOF\<close> when it ended after some but not all of them.
\<close>

definition ReadFull :: "reader \<Rightarrow> nat \<Rightarrow> (error + byte list) \<times> reader" where
  "ReadFull file n =
     (let bs = unread file;
          file' = file\<lparr>ops := ops file @ [OpRead n]\<rparr>
      in if n \<le> length bs then (Inr (take n bs), file'\<lparr>unread := drop n bs\<rparr>)
         else if bs = [] then (Inl EOF, file')
         else (Inl ErrUnexpectedEOF, file'\<lparr>unread := []\<rparr>))"

section \<open>The decoded scene\<close>

text \<open>
  The structures of the external decoder (package \<^verbatim>\<open>v6\<close>) as far as \<^verbatim>\<open>render.go\<close>
  reads them: \<^verbatim>\<open>scene.Layers\<close>, \<^verbatim>\<open>layer.Lines\<close>, \<^verbatim>\<open>line.Line.Value.Points\<close> and
  the fields of a \<^verbatim>\<open>PenPoint\<close>. Floating-point numbers are modelled as reals, so
  every arithmetic operation is taken to be exact.
\<close>

record PenPoint =
  X :: real
  Y :: real
  Width :: real
  Pressure :: real

record line =
  Points :: "PenPoint list"

record layer =
  Lines :: "line list"

record Scene =
  Layers :: "layer list"

text \<open>
  The external decoder \<^verbatim>\<open>SceneReader.ExtractScene\<close> is a parameter: from the bytes the
  stream still holds it yields an error or a scene, and the bytes it left unread.
\<close>

type_synonym SceneReader = "byte list \<Rightarrow> (error + Scene) \<times> byte list"

definition ExtractScene :: "SceneReader \<Rightarrow> reader \<Rightarrow> (error + Scene) \<times> reader" where
  "ExtractScene sceneParser file =
     (case sceneParser (unread file) of
        (res, rest) \<Rightarrow> (res, file\<lparr>unread := rest, ops := ops file @ [OpExtractScene]\<rparr>))"

section \<open>The canvas\<close>

text \<open>
  The \<^verbatim>\<open>fpdf\<close> document is external as well. It is modelled as the sequence of the
  calls made on it, in the order they are made.
\<close>

datatype fpdf_call =
    NewCustom string real real
  | SetLineCapStyle string
  | SetLineJoinStyle string
  | SetLineWidth real
  | Line real real real real

type_synonym Fpdf = "fpdf_call list"

text \<open>
  The innermost loop of \<^verbatim>\<open>parseSceneFile\<close>, over the points of one line.
  \<open>lastPoint\<close> is \<^verbatim>\<open>nil\<close> (here \<open>None\<close>) until the first point has been visited.
\<close>

fun points_loop :: "real \<Rightarrow> PenPoint list \<Rightarrow> PenPoint option \<Rightarrow> Fpdf \<Rightarrow> Fpdf" where
  "points_loop DeviceWidth [] lastPoint pdf = pdf"
| "points_loop DeviceWidth (point # rest) lastPoint pdf =
     points_loop DeviceWidth rest (Some point)
       (case lastPoint of
          None \<Rightarrow> pdf
        | Some lp \<Rightarrow>
            (let w = Width point;
                 fac = 1.0;
                 pdf1 = pdf @ [SetLineWidth (w * fac / 5)];
                 x = X lp + DeviceWidth / 2;
                 y = Y lp;
                 dx = X point + DeviceWidth / 2;
                 dy = Y point
             in pdf1 @ [Line x y dx dy]))"

text \<open>The loop over the lines of a layer; \<open>lastPoint\<close> is declared anew for each line.\<close>

fun lines_loop :: "real \<Rightarrow> line list \<Rightarrow> Fpdf \<Rightarrow> Fpdf" where
  "lines_loop DeviceWidth [] pdf = pdf"
| "lines_loop DeviceWidth (line # rest) pdf =
     lines_loop DeviceWidth rest (points_loop DeviceWidth (Points line) None pdf)"

text \<open>The outer loop over the layers of the scene.\<close>

fun layers_loop :: "real \<Rightarrow> layer list \<Rightarrow> Fpdf \<Rightarrow> Fpdf" where
  "layers_loop DeviceWidth [] pdf = pdf"
| "layers_loop DeviceWidth (layer # rest) pdf =
     layers_loop DeviceWidth rest (lines_loop DeviceWidth (Lines layer) pdf)"

text \<open>
  \<^verbatim>\<open>parseSceneFile\<close>. The header length is \<^verbatim>\<open>0x2b\<close> = 43. The constants
  \<^verbatim>\<open>DeviceWidth\<close> and \<^verbatim>\<open>DeviceHeight\<close> are declared in another file of the package
  and are parameters here.
\<close>

definition parseSceneFile ::
  "SceneReader \<Rightarrow> real \<Rightarrow> real \<Rightarrow> reader \<Rightarrow> (error + Fpdf) \<times> reader" where
  "parseSceneFile sceneParser DeviceWidth DeviceHeight file =
     (let headerLength = 43 in
      case ReadFull file headerLength of
        (Inl err, file1) \<Rightarrow> (Inl err, file1)
      | (Inr buffer, file1) \<Rightarrow>
          (case ExtractScene sceneParser file1 of
             (Inl err, file2) \<Rightarrow> (Inl err, file2)
           | (Inr scene, file2) \<Rightarrow>
               (let pdf = [NewCustom ''pt'' DeviceWidth DeviceHeight];
                    pdf = pdf @ [SetLineCapStyle ''round''];
                    pdf = pdf @ [SetLineJoinStyle ''round''];
                    pdf = layers_loop DeviceWidth (Layers scene) pdf
                in (Inr pdf, file2))))"

text \<open>
  \<^verbatim>\<open>RenderCustom\<close>. A \<^verbatim>\<open>nil\<close> reader or writer is \<open>None\<close>. The writer is any type
  \<open>'w\<close>; \<^verbatim>\<open>pdf.Output\<close> is external and is a parameter that, from the document and
  the writer, yields an error or \<^verbatim>\<open>nil\<close>, and the writer after the call. The result
  is the error returned, with the reader and the writer as the call leaves them.
\<close>

definition RenderCustom ::
  "SceneReader \<Rightarrow> real \<Rightarrow> real \<Rightarrow> (Fpdf \<Rightarrow> 'w \<Rightarrow> error option \<times> 'w) \<Rightarrow>
   reader option \<Rightarrow> 'w option \<Rightarrow> error option \<times> reader option \<times> 'w option" where
  "RenderCustom sceneParser DeviceWidth DeviceHeight Output reader output =
     (case (output, reader) of
        (Some out, Some file) \<Rightarrow>
          (case parseSceneFile sceneParser DeviceWidth DeviceHeight file of
             (Inl err, file') \<Rightarrow> (Some err, Some file', Some out)
           | (Inr pdf, file') \<Rightarrow>
               (case Output pdf out of
                  (Some err, out') \<Rightarrow> (Some err, Some file', Some out')
                | (None, out') \<Rightarrow> (None, Some file', Some out')))
      | _ \<Rightarrow> (Some (New ''reader or writer were nil''), reader, output))"

section \<open>The full-document path\<close>

text \<open>
  The file made by \<^verbatim>\<open>os.Create\<close>: its bytes, the offset of the next read or write,
  and whether it has been closed.
\<close>

record os_File =
  content :: "byte list"
  offset :: nat
  closed :: bool

definition file_Write :: "os_File \<Rightarrow> byte list \<Rightarrow> os_File" where
  "file_Write f bs =
     f\<lparr>content := take (offset f) (content f) @ bs @ drop (offset f + length bs) (content f),
       offset := offset f + length bs\<rparr>"

text \<open>\<^verbatim>\<open>Seek(off, 0)\<close>, relative to the start; \<open>fails\<close> is the error the system reports, if any.\<close>

definition file_Seek :: "error option \<Rightarrow> os_File \<Rightarrow> nat \<Rightarrow> error option \<times> os_File" where
  "file_Seek fails f off =
     (case fails of Some err \<Rightarrow> (Some err, f) | None \<Rightarrow> (None, f\<lparr>offset := off\<rparr>))"

definition file_Close :: "os_File \<Rightarrow> os_File" where
  "file_Close f = f\<lparr>closed := True\<rparr>"

text \<open>
  What lies outside \<^verbatim>\<open>RenderPoundifdef\<close>: opening the zip archive, creating the output
  file (\<open>None\<close>: created), the external renderer (the bytes it wrote to the writer and
  the error it returned, if any), and whether the seek fails.
\<close>

record 'z backend =
  zip_OpenReader :: "string \<Rightarrow> error + 'z"
  os_Create :: "string \<Rightarrow> error option"
  RenderRmNotebookFromZip :: "'z \<Rightarrow> byte list \<times> error option"
  Seek_fails :: "error option"

text \<open>
  The result of a call: what is returned, the last state of the file the call created
  (if it created one), and how many times the zip reader was closed.
\<close>

record outcome =
  returned :: "error + os_File"
  created :: "os_File option"
  zip_closes :: nat

definition RenderPoundifdef :: "'z backend \<Rightarrow> string \<Rightarrow> string \<Rightarrow> outcome" where
  "RenderPoundifdef sys input output =
     (case zip_OpenReader sys input of
        Inl err \<Rightarrow>
          \<lparr>returned = Inl (Errorf ''can't open file '' err), created = None, zip_closes = 0\<rparr>
      | Inr reader \<Rightarrow>
          (case os_Create sys output of
             Some err \<Rightarrow>
               \<lparr>returned = Inl (Errorf ''can't create outputfile '' err), created = None,
                zip_closes = 1\<rparr>
           | None \<Rightarrow>
               (let writer = \<lparr>content = [], offset = 0, closed = False\<rparr> in
                case RenderRmNotebookFromZip sys reader of
                  (bs, Some err) \<Rightarrow>
                    \<lparr>returned = Inl (Errorf ''can't render file '' err),
                     created = Some (file_Close (file_Write writer bs)), zip_closes = 1\<rparr>
                | (bs, None) \<Rightarrow>
                    (case file_Seek (Seek_fails sys) (file_Write writer bs) 0 of
                       (Some err, writer') \<Rightarrow>
                         \<lparr>returned = Inl (Errorf ''can't rewind file '' err),
                          created = Some (file_Close writer'), zip_closes = 1\<rparr>
                     | (None, writer') \<Rightarrow>
                         \<lparr>returned = Inr writer', created = Some writer', zip_closes = 1\<rparr>))))"

section \<open>The output stream adapter\<close>

text \<open>
  \<^verbatim>\<open>bytes.Reader\<close> holds the slice and the current reading index.
  \<^verbatim>\<open>SeekCloser\<close> embeds a pointer to one and adds \<^verbatim>\<open>Close\<close>.
\<close>

record SeekCloser =
  slice :: "byte list"
  index :: nat

definition NewSeekCloser :: "byte list \<Rightarrow> SeekCloser" where
  "NewSeekCloser b = \<lparr>slice = b, index = 0\<rparr>"

text \<open>\<^verbatim>\<open>func (*SeekCloser) Close() error { return nil }\<close>\<close>

definition Close :: "SeekCloser \<Rightarrow> error option \<times> SeekCloser" where
  "Close r = (None, r)"

text \<open>The bytes that reading will still deliver: the slice from the index on.\<close>

definition readable :: "SeekCloser \<Rightarrow> byte list" where
  "readable r = drop (index r) (slice r)"

text \<open>\<^verbatim>\<open>Close\<close> called \<open>n\<close> times in a row; the errors returned are collected in order.\<close>

fun Close_times :: "nat \<Rightarrow> SeekCloser \<Rightarrow> error option list \<times> SeekCloser" where
  "Close_times 0 r = ([], r)"
| "Close_times (Suc n) r =
     (case Close r of (e, r') \<Rightarrow> (case Close_times n r' of (es, r'') \<Rightarrow> (e # es, r'')))"

section \<open>Reading the canvas\<close>

text \<open>
  The strokes a sequence of canvas calls paints: each \<open>Line\<close> is stroked with the width
  of the last \<open>SetLineWidth\<close> before it (\<open>None\<close>: the library's default, no width was
  set), from its first to its second end point.
\<close>

fun segments :: "real option \<Rightarrow> Fpdf \<Rightarrow> (real option \<times> (real \<times> real) \<times> (real \<times> real)) list" where
  "segments w [] = []"
| "segments w (SetLineWidth w' # cs) = segments (Some w') cs"
| "segments w (Line x y dx dy # cs) = (w, (x, y), (dx, dy)) # segments w cs"
| "segments w (c # cs) = segments w cs"

text \<open>The line-draw commands among the calls.\<close>

fun is_Line :: "fpdf_call \<Rightarrow> bool" where
  "is_Line (Line x y dx dy) = True"
| "is_Line c = False"

definition draws :: "Fpdf \<Rightarrow> Fpdf" where
  "draws pdf = filter is_Line pdf"

text \<open>How many times \<^verbatim>\<open>Close\<close> was called on an input stream.\<close>

definition closes :: "reader \<Rightarrow> nat" where
  "closes file = count_list (ops file) OpClose"

text \<open>The adjacent pairs of a list, in order: each element with its successor.\<close>

definition adjacent :: "'a list \<Rightarrow> ('a \<times> 'a) list" where
  "adjacent ps = zip ps (tl ps)"

text \<open>All the lines of a list of layers, in the order the two outer loops visit them.\<close>

definition all_lines :: "layer list \<Rightarrow> line list" where
  "all_lines layers = concat (map Lines layers)"

text \<open>The two calls the loop body makes for a pair of a last point and a current point.\<close>

definition segment_calls :: "real \<Rightarrow> PenPoint \<times> PenPoint \<Rightarrow> Fpdf" where
  "segment_calls DeviceWidth pr =
     [SetLineWidth (Width (snd pr) * 1.0 / 5),
      Line (X (fst pr) + DeviceWidth / 2) (Y (fst pr)) (X (snd pr) + DeviceWidth / 2) (Y (snd pr))]"

section \<open>Concrete inputs\<close>

text \<open>A line of three points, with widths 2, 4 and 4.\<close>

definition example_points :: "PenPoint list" where
  "example_points =
     [\<lparr>X = 0, Y = 0, Width = 2, Pressure = 0\<rparr>,
      \<lparr>X = 10, Y = 0, Width = 4, Pressure = 0\<rparr>,
      \<lparr>X = 10, Y = 10, Width = 4, Pressure = 0\<rparr>]"

text \<open>
  A decoder that accepts every body and yields a scene of two layers: one with the line
  above, and an empty one. A decoder that rejects every body.
\<close>

definition accepting_decoder :: SceneReader where
  "accepting_decoder bs =
     (Inr \<lparr>Layers = [\<lparr>Lines = [\<lparr>Points = example_points\<rparr>]\<rparr>, \<lparr>Lines = []\<rparr>]\<rparr>, [])"

definition rejecting_decoder :: SceneReader where
  "rejecting_decoder bs = (Inl (Foreign ''corrupt body''), [])"

text \<open>A fresh input stream of \<open>n\<close> zero bytes.\<close>

definition zero_page :: "nat \<Rightarrow> reader" where
  "zero_page n = \<lparr>unread = replicate n 0, ops = []\<rparr>"

text \<open>An output step that appends four bytes to a byte-list writer and succeeds.\<close>

definition appending_Output :: "Fpdf \<Rightarrow> byte list \<Rightarrow> error option \<times> byte list" where
  "appending_Output pdf out = (None, out @ [37, 80, 68, 70])"

text \<open>A system on which every step of the full-document path succeeds.\<close>

definition working_backend :: "unit backend" where
  "working_backend =
     \<lparr>zip_OpenReader = (\<lambda>name. Inr ()), os_Create = (\<lambda>name. None),
      RenderRmNotebookFromZip = (\<lambda>z. ([37, 80, 68, 70], None)), Seek_fails = None\<rparr>"

section \<open>Properties of the loops\<close>

lemma points_loop_Some:
  "points_loop W ps (Some lp) pdf = pdf @ concat (map (segment_calls W) (zip (lp # ps) ps))"
  by (induction ps arbitrary: lp pdf) (simp_all add: segment_calls_def)

lemma points_loop_None:
  "points_loop W ps None pdf = pdf @ concat (map (segment_calls W) (adjacent ps))"
  by (cases ps) (simp_all add: adjacent_def points_loop_Some)

lemma lines_loop_eq:
  "lines_loop W ls pdf =
     pdf @ concat (map (segment_calls W) (concat (map (\<lambda>l. adjacent (Points l)) ls)))"
  by (induction ls arbitrary: pdf) (simp_all add: points_loop_None)

lemma layers_loop_eq:
  "layers_loop W lys pdf =
     pdf @ concat (map (segment_calls W)
             (concat (map (\<lambda>l. adjacent (Points l)) (all_lines lys))))"
  by (induction lys arbitrary: pdf) (simp_all add: lines_loop_eq all_lines_def)

lemma segments_calls:
  "segments w (concat (map (segment_calls W) prs)) =
     map (\<lambda>pr. (Some (Width (snd pr) * 1.0 / 5),
                 (X (fst pr) + W / 2, Y (fst pr)), (X (snd pr) + W / 2, Y (snd pr)))) prs"
  by (induction prs arbitrary: w) (simp_all add: segment_calls_def)

lemma draws_calls:
  "draws (concat (map (segment_calls W) prs)) =
     map (\<lambda>pr. Line (X (fst pr) + W / 2) (Y (fst pr)) (X (snd pr) + W / 2) (Y (snd pr))) prs"
  by (induction prs) (simp_all add: segment_calls_def draws_def)

lemma draws_concat_calls:
  "draws (concat (map (segment_calls W) (concat xss))) =
     concat (map (\<lambda>xs. draws (concat (map (segment_calls W) xs))) xss)"
  by (induction xss) (simp_all add: draws_def)

lemma length_adjacent: "length (adjacent ps) = length ps - 1"
  by (simp add: adjacent_def)

lemma points_loop_Pressure:
  "points_loop W (map (\<lambda>p. p\<lparr>Pressure := f p\<rparr>) ps)
       (map_option (\<lambda>p. p\<lparr>Pressure := f p\<rparr>) lastPoint) pdf
     = points_loop W ps lastPoint pdf"
proof (induction ps arbitrary: lastPoint pdf)
  case Nil
  show ?case by simp
next
  case (Cons a ps)
  from Cons [of "Some a"] show ?case
    by (cases lastPoint) simp_all
qed

section \<open>Properties of ingestion\<close>

lemma ReadFull_short:
  "length (unread file) < n \<Longrightarrow>
     ReadFull file n =
       (Inl (if unread file = [] then EOF else ErrUnexpectedEOF),
        file\<lparr>unread := [], ops := ops file @ [OpRead n]\<rparr>)"
  by (simp add: ReadFull_def Let_def)

lemma ReadFull_enough:
  "n \<le> length (unread file) \<Longrightarrow>
     ReadFull file n =
       (Inr (take n (unread file)),
        file\<lparr>unread := drop n (unread file), ops := ops file @ [OpRead n]\<rparr>)"
  by (simp add: ReadFull_def Let_def)

lemma parseSceneFile_short:
  "length (unread file) < 43 \<Longrightarrow>
     parseSceneFile sceneParser W H file =
       (Inl (if unread file = [] then EOF else ErrUnexpectedEOF),
        file\<lparr>unread := [], ops := ops file @ [OpRead 43]\<rparr>)"
  by (simp add: parseSceneFile_def ReadFull_short)

lemma parseSceneFile_enough:
  "43 \<le> length (unread file) \<Longrightarrow>
     parseSceneFile sceneParser W H file =
       (case fst (sceneParser (drop 43 (unread file))) of
          Inl err \<Rightarrow> Inl err
        | Inr scene \<Rightarrow>
            Inr (layers_loop W (Layers scene)
                  [NewCustom ''pt'' W H, SetLineCapStyle ''round'', SetLineJoinStyle ''round'']),
        file\<lparr>unread := snd (sceneParser (drop 43 (unread file))),
             ops := ops file @ [OpRead 43, OpExtractScene]\<rparr>)"
  by (simp add: parseSceneFile_def ReadFull_enough ExtractScene_def
        split: prod.splits sum.splits)

lemma Close_times_eq: "Close_times n r = (replicate n None, r)"
  by (induction n) (simp_all add: Close_def)

section \<open>Stroke composition\<close>

text \<open>
  The statement that the width of a segment is the width of its leading point times 1.0
  fails on the line of three points with widths 2, 4 and 4 on a page of width 100: the
  widths set for the two segments are both \<open>4 * 1.0 / 5\<close>, not \<open>2 * 1.0\<close> and
  \<open>4 * 1.0\<close> (C1 as stated).
\<close>

theorem stroke_width_not_leading_point:
  "map fst (segments None (points_loop 100
       [\<lparr>X = 0, Y = 0, Width = 2, Pressure = 0\<rparr>,
        \<lparr>X = 10, Y = 0, Width = 4, Pressure = 0\<rparr>,
        \<lparr>X = 10, Y = 10, Width = 4, Pressure = 0\<rparr>] None []))
     = [Some (4 * 1.0 / 5), Some (4 * 1.0 / 5)]
   \<and> map fst (segments None (points_loop 100
       [\<lparr>X = 0, Y = 0, Width = 2, Pressure = 0\<rparr>,
        \<lparr>X = 10, Y = 0, Width = 4, Pressure = 0\<rparr>,
        \<lparr>X = 10, Y = 10, Width = 4, Pressure = 0\<rparr>] None []))
     \<noteq> [Some (2 * 1.0), Some (4 * 1.0)]"
  by simp

text \<open>
  C1, corrected. For every line and every adjacent pair of points (prev, curr) in it, the
  width set for the segment drawn from prev to curr is the width of curr, the later
  point, times the fixed factor 1.0 and divided by 5. The pressure is never applied:
  replacing the pressure of every point by anything else leaves the calls made on the
  canvas unchanged.
\<close>

theorem stroke_width_trailing_point_fifth:
  "map fst (segments w (points_loop W ps None [])) =
     map (\<lambda>pr. Some (Width (snd pr) * 1.0 / 5)) (adjacent ps)
   \<and> points_loop W (map (\<lambda>p. p\<lparr>Pressure := f p\<rparr>) ps) None pdf = points_loop W ps None pdf"
  using points_loop_Pressure [of W f ps None pdf]
  by (simp add: points_loop_None segments_calls o_def)

text \<open>
  C2. The segments painted by the loops over a scene are, in order, those of the adjacent
  point pairs of its lines, and each one runs from \<open>(x + DeviceWidth / 2, y)\<close> of the
  earlier point to \<open>(x + DeviceWidth / 2, y)\<close> of the later one: the horizontal
  coordinate is shifted by half the page width, the vertical one is unchanged.
\<close>

theorem segment_endpoints_recentred:
  "map snd (segments w (layers_loop W layers [])) =
     map (\<lambda>pr. ((X (fst pr) + W / 2, Y (fst pr)), (X (snd pr) + W / 2, Y (snd pr))))
       (concat (map (\<lambda>line. adjacent (Points line)) (all_lines layers)))"
  by (simp add: layers_loop_eq segments_calls o_def)

text \<open>
  C3. A line with no point or with one point adds no call to the canvas, and so does a
  layer without lines. A line with \<open>N \<ge> 2\<close> points adds exactly \<open>N - 1\<close> line-draw
  commands, appended to the calls made before, one per adjacent pair of points in the
  order of the points. The line-draw commands of a scene are those of its lines, layer
  after layer and line after line. Once the preamble has been read and the decoder has
  accepted the body, \<open>parseSceneFile\<close> returns the document and no error, whatever the
  scene holds.
\<close>

theorem draw_commands_count_and_order:
  "points_loop W [] None pdf = pdf
   \<and> points_loop W [p] None pdf = pdf
   \<and> lines_loop W [] pdf = pdf
   \<and> (2 \<le> length ps \<longrightarrow> length (draws (points_loop W ps None [])) = length ps - 1)
   \<and> points_loop W ps None pdf = pdf @ points_loop W ps None []
   \<and> draws (points_loop W ps None []) =
       map (\<lambda>pr. Line (X (fst pr) + W / 2) (Y (fst pr)) (X (snd pr) + W / 2) (Y (snd pr)))
         (adjacent ps)
   \<and> draws (layers_loop W layers []) =
       concat (map (\<lambda>line. draws (points_loop W (Points line) None [])) (all_lines layers))
   \<and> (43 \<le> length (unread file) \<and> fst (sceneParser (drop 43 (unread file))) = Inr scene \<longrightarrow>
        fst (parseSceneFile sceneParser W H file) =
          Inr ([NewCustom ''pt'' W H, SetLineCapStyle ''round'', SetLineJoinStyle ''round'']
               @ layers_loop W (Layers scene) []))"
proof -
  have one: "points_loop W [p] None pdf = pdf" by simp
  have count: "length (draws (points_loop W ps None [])) = length ps - 1"
    by (simp add: points_loop_None draws_calls length_adjacent)
  have app: "points_loop W ps None pdf = pdf @ points_loop W ps None []"
    by (simp add: points_loop_None)
  have line: "draws (points_loop W ps None []) =
       map (\<lambda>pr. Line (X (fst pr) + W / 2) (Y (fst pr)) (X (snd pr) + W / 2) (Y (snd pr)))
         (adjacent ps)"
    by (simp add: points_loop_None draws_calls)
  have order: "draws (layers_loop W layers []) =
       concat (map (\<lambda>line. draws (points_loop W (Points line) None [])) (all_lines layers))"
    by (simp add: layers_loop_eq points_loop_None draws_concat_calls o_def)
  have ok: "43 \<le> length (unread file) \<and> fst (sceneParser (drop 43 (unread file))) = Inr scene \<longrightarrow>
        fst (parseSceneFile sceneParser W H file) =
          Inr ([NewCustom ''pt'' W H, SetLineCapStyle ''round'', SetLineJoinStyle ''round'']
               @ layers_loop W (Layers scene) [])"
    by (simp add: parseSceneFile_enough layers_loop_eq)
  show ?thesis using one count app line order ok by simp
qed

text \<open>
  The line of three points gives two line-draw commands, and a page of 44 bytes whose
  body decodes to that line and an empty layer gives the document with exactly these.
\<close>

theorem draw_commands_count_and_order_witness:
  "2 \<le> length example_points
   \<and> length (draws (points_loop 100 example_points None [])) = 2
   \<and> 43 \<le> length (unread (zero_page 44))
   \<and> fst (accepting_decoder (drop 43 (unread (zero_page 44)))) =
       Inr \<lparr>Layers = [\<lparr>Lines = [\<lparr>Points = example_points\<rparr>]\<rparr>, \<lparr>Lines = []\<rparr>]\<rparr>
   \<and> fst (parseSceneFile accepting_decoder 100 200 (zero_page 44)) =
       Inr [NewCustom ''pt'' 100 200, SetLineCapStyle ''round'', SetLineJoinStyle ''round'',
            SetLineWidth (4 / 5), Line 50 0 60 0, SetLineWidth (4 / 5), Line 60 0 60 10]"
  using draw_commands_count_and_order
    [of 100 "[]" "undefined" example_points "[]" "zero_page 44" accepting_decoder
      "\<lparr>Layers = [\<lparr>Lines = [\<lparr>Points = example_points\<rparr>]\<rparr>, \<lparr>Lines = []\<rparr>]\<rparr>" 200]
  by (simp add: example_points_def zero_page_def accepting_decoder_def adjacent_def draws_def
        all_lines_def)

section \<open>Ingestion and the custom path\<close>

text \<open>
  On a page of 50 bytes whose body the decoder rejects, \<open>parseSceneFile\<close> returns the
  decoder's error itself, and that error wraps nothing: the error returned is not an
  error that has the decoder's error as its cause (C4 as stated).
\<close>

theorem decoder_error_not_wrapped:
  "fst (rejecting_decoder (drop 43 (unread (zero_page 50)))) = Inl (Foreign ''corrupt body'')
   \<and> fst (parseSceneFile rejecting_decoder 1404 1872 (zero_page 50)) =
       Inl (Foreign ''corrupt body'')
   \<and> Unwrap (Foreign ''corrupt body'') = None
   \<and> Unwrap (Foreign ''corrupt body'') \<noteq> Some (Foreign ''corrupt body'')"
  by (simp add: parseSceneFile_enough zero_page_def rejecting_decoder_def)

text \<open>
  C4, corrected. Whenever the input holds at least the 43 bytes of the preamble and the
  decoder rejects the body with an error, \<open>parseSceneFile\<close> returns that very error, with
  no error wrapped around it, and \<open>RenderCustom\<close> returns it to its caller.
\<close>

theorem decoder_error_returned_as_is:
  "43 \<le> length (unread file) \<Longrightarrow> fst (sceneParser (drop 43 (unread file))) = Inl err \<Longrightarrow>
     fst (parseSceneFile sceneParser W H file) = Inl err
     \<and> fst (RenderCustom sceneParser W H Output (Some file) (Some out)) = Some err"
  by (simp add: RenderCustom_def parseSceneFile_enough)

theorem decoder_error_returned_as_is_witness:
  "43 \<le> length (unread (zero_page 50))
   \<and> fst (rejecting_decoder (drop 43 (unread (zero_page 50)))) = Inl (Foreign ''corrupt body'')
   \<and> fst (parseSceneFile rejecting_decoder 1404 1872 (zero_page 50)) =
       Inl (Foreign ''corrupt body'')
   \<and> fst (RenderCustom rejecting_decoder 1404 1872 appending_Output (Some (zero_page 50))
            (Some [])) = Some (Foreign ''corrupt body'')"
proof -
  have h1: "43 \<le> length (unread (zero_page 50))"
    by (simp add: zero_page_def)
  have h2: "fst (rejecting_decoder (drop 43 (unread (zero_page 50)))) =
      Inl (Foreign ''corrupt body'')"
    by (simp add: rejecting_decoder_def)
  from decoder_error_returned_as_is
         [of "zero_page 50" rejecting_decoder "Foreign ''corrupt body''" 1404 1872
             appending_Output "[]"] h1 h2
  show ?thesis by simp
qed

text \<open>
  C6. If \<open>parseSceneFile\<close>, which reads, decodes and composes, fails, then \<open>RenderCustom\<close>
  returns the same error and the writer is as it was: whatever the output step would
  do, it is not reached. When \<open>parseSceneFile\<close> succeeds, the writer is changed by the
  one output step on the finished document, and by nothing else.
\<close>

theorem RenderCustom_parse_error_unchanged_no_write:
  "(parseSceneFile sceneParser W H file = (Inl err, file') \<longrightarrow>
      RenderCustom sceneParser W H Output (Some file) (Some out) =
        (Some err, Some file', Some out))
   \<and> (parseSceneFile sceneParser W H file = (Inr pdf, file') \<longrightarrow>
      RenderCustom sceneParser W H Output (Some file) (Some out) =
        (fst (Output pdf out), Some file', Some (snd (Output pdf out))))"
  by (simp add: RenderCustom_def split: prod.splits option.splits)

theorem RenderCustom_parse_error_unchanged_no_write_witness:
  "parseSceneFile rejecting_decoder 1404 1872 (zero_page 50) =
     (Inl (Foreign ''corrupt body''), \<lparr>unread = [], ops = [OpRead 43, OpExtractScene]\<rparr>)
   \<and> RenderCustom rejecting_decoder 1404 1872 appending_Output (Some (zero_page 50))
       (Some [1, 2]) =
     (Some (Foreign ''corrupt body''),
      Some \<lparr>unread = [], ops = [OpRead 43, OpExtractScene]\<rparr>, Some [1, 2])
   \<and> parseSceneFile accepting_decoder 100 200 (zero_page 43) =
     (Inr [NewCustom ''pt'' 100 200, SetLineCapStyle ''round'', SetLineJoinStyle ''round'',
            SetLineWidth (4 / 5), Line 50 0 60 0, SetLineWidth (4 / 5), Line 60 0 60 10],
      \<lparr>unread = [], ops = [OpRead 43, OpExtractScene]\<rparr>)
   \<and> RenderCustom accepting_decoder 100 200 appending_Output (Some (zero_page 43))
       (Some [1, 2]) =
     (None, Some \<lparr>unread = [], ops = [OpRead 43, OpExtractScene]\<rparr>,
      Some [1, 2, 37, 80, 68, 70])"
proof -
  have h1: "parseSceneFile rejecting_decoder 1404 1872 (zero_page 50) =
     (Inl (Foreign ''corrupt body''), \<lparr>unread = [], ops = [OpRead 43, OpExtractScene]\<rparr>)"
    by (simp add: parseSceneFile_enough zero_page_def rejecting_decoder_def)
  have h2: "parseSceneFile accepting_decoder 100 200 (zero_page 43) =
     (Inr [NewCustom ''pt'' 100 200, SetLineCapStyle ''round'', SetLineJoinStyle ''round'',
            SetLineWidth (4 / 5), Line 50 0 60 0, SetLineWidth (4 / 5), Line 60 0 60 10],
      \<lparr>unread = [], ops = [OpRead 43, OpExtractScene]\<rparr>)"
    by (simp add: parseSceneFile_enough zero_page_def accepting_decoder_def example_points_def)
  from RenderCustom_parse_error_unchanged_no_write
         [of rejecting_decoder 1404 1872 "zero_page 50" "Foreign ''corrupt body''"
             "\<lparr>unread = [], ops = [OpRead 43, OpExtractScene]\<rparr>" appending_Output "[1, 2]"] h1
  have a: "RenderCustom rejecting_decoder 1404 1872 appending_Output (Some (zero_page 50))
       (Some [1, 2]) =
     (Some (Foreign ''corrupt body''),
      Some \<lparr>unread = [], ops = [OpRead 43, OpExtractScene]\<rparr>, Some [1, 2])"
    by simp
  from RenderCustom_parse_error_unchanged_no_write
         [of accepting_decoder 100 200 "zero_page 43" _ _ appending_Output "[1, 2]"] h2
  have b: "RenderCustom accepting_decoder 100 200 appending_Output (Some (zero_page 43))
       (Some [1, 2]) =
     (None, Some \<lparr>unread = [], ops = [OpRead 43, OpExtractScene]\<rparr>,
      Some [1, 2, 37, 80, 68, 70])"
    by (simp add: appending_Output_def)
  from h1 a h2 b show ?thesis by simp
qed

text \<open>
  C7. On an input of fewer than 43 bytes \<open>parseSceneFile\<close> fails with the error of the
  short read (\<^verbatim>\<open>io.EOF\<close> on an empty input, \<^verbatim>\<open>io.ErrUnexpectedEOF\<close> otherwise); the
  only operation on the stream is the read of 43 bytes, so the decoder is not invoked,
  and the result does not depend on the decoder. On an input that starts with 43 bytes
  \<open>pre\<close>, the decoder is given exactly the bytes after them, and the result is the same
  whatever the 43 bytes are.
\<close>

theorem parseSceneFile_preamble:
  "(length (unread file) < 43 \<longrightarrow>
      parseSceneFile sceneParser W H file =
        (Inl (if unread file = [] then EOF else ErrUnexpectedEOF),
         file\<lparr>unread := [], ops := ops file @ [OpRead 43]\<rparr>))
   \<and> (length pre = 43 \<longrightarrow>
      parseSceneFile sceneParser W H (file\<lparr>unread := pre @ body\<rparr>) =
        (case fst (sceneParser body) of
           Inl err \<Rightarrow> Inl err
         | Inr scene \<Rightarrow>
             Inr (layers_loop W (Layers scene)
                   [NewCustom ''pt'' W H, SetLineCapStyle ''round'', SetLineJoinStyle ''round'']),
         file\<lparr>unread := snd (sceneParser body),
              ops := ops file @ [OpRead 43, OpExtractScene]\<rparr>))"
  by (simp add: parseSceneFile_short parseSceneFile_enough)

theorem parseSceneFile_preamble_witness:
  "length (unread (zero_page 42)) < 43
   \<and> parseSceneFile accepting_decoder 100 200 (zero_page 42) =
       (Inl ErrUnexpectedEOF, \<lparr>unread = [], ops = [OpRead 43]\<rparr>)
   \<and> length (replicate 43 (255 :: byte)) = 43
   \<and> parseSceneFile rejecting_decoder 100 200
         ((zero_page 0)\<lparr>unread := replicate 43 255 @ [1, 2, 3]\<rparr>) =
       (Inl (Foreign ''corrupt body''), \<lparr>unread = [], ops = [OpRead 43, OpExtractScene]\<rparr>)"
  using parseSceneFile_preamble
          [of "zero_page 42" accepting_decoder 100 200 "replicate 43 255" "[1, 2, 3]"]
        parseSceneFile_preamble
          [of "zero_page 0" rejecting_decoder 100 200 "replicate 43 255" "[1, 2, 3]"]
  by (simp add: zero_page_def rejecting_decoder_def)

text \<open>
  C8. With a \<^verbatim>\<open>nil\<close> reader or a \<^verbatim>\<open>nil\<close> writer, \<open>RenderCustom\<close> returns the error
  \<^verbatim>\<open>reader or writer were nil\<close> and leaves both as they were: no operation is logged
  on the input, and the writer is untouched.
\<close>

theorem RenderCustom_nil_arguments:
  "reader = None \<or> output = None \<Longrightarrow>
     RenderCustom sceneParser W H Output reader output =
       (Some (New ''reader or writer were nil''), reader, output)"
  by (auto simp: RenderCustom_def split: option.splits)

theorem RenderCustom_nil_arguments_witness:
  "RenderCustom accepting_decoder 100 200 appending_Output None (Some [1, 2]) =
     (Some (New ''reader or writer were nil''), None, Some [1, 2])
   \<and> RenderCustom accepting_decoder 100 200 appending_Output (Some (zero_page 44)) None =
     (Some (New ''reader or writer were nil''), Some (zero_page 44), None)"
  using RenderCustom_nil_arguments [of None "Some [1, 2]" accepting_decoder 100 200 appending_Output]
        RenderCustom_nil_arguments [of "Some (zero_page 44)" None accepting_decoder 100 200
          appending_Output]
  by simp

text \<open>
  C10. Whatever \<open>RenderCustom\<close> returns for a reader that is not \<^verbatim>\<open>nil\<close>, the number of
  \<^verbatim>\<open>Close\<close> calls logged on the reader is the same after the call as before it.
\<close>

theorem RenderCustom_never_closes_input:
  "map_option closes (fst (snd (RenderCustom sceneParser W H Output (Some file) output)))
     = Some (closes file)"
proof (cases "43 \<le> length (unread file)")
  case True
  then show ?thesis
    by (simp add: RenderCustom_def parseSceneFile_enough closes_def
          split: option.splits sum.splits prod.splits)
next
  case False
  then show ?thesis
    by (simp add: RenderCustom_def parseSceneFile_short closes_def
          split: option.splits sum.splits prod.splits)
qed

section \<open>The full-document path and the stream adapter\<close>

text \<open>
  When every step succeeds, the file that \<open>RenderPoundifdef\<close> created is returned, and it
  has not been closed: the file is not closed on every exit path (C5 as stated).
\<close>

theorem output_file_open_on_success:
  "isl (returned (RenderPoundifdef working_backend ''notebook.zip'' ''notebook.pdf'')) = False
   \<and> map_option closed
       (created (RenderPoundifdef working_backend ''notebook.zip'' ''notebook.pdf''))
       = Some False"
  by (simp add: RenderPoundifdef_def working_backend_def file_Seek_def file_Write_def)

text \<open>
  C5, corrected. If \<open>RenderPoundifdef\<close> created no file, it returns an error. If it
  created the file and returns an error, the file has been closed. If it succeeds, it
  returns the file it created, open and with its offset at 0.
\<close>

theorem output_file_closed_on_failure_rewound_on_success:
  "(case created (RenderPoundifdef sys input output) of
      None \<Rightarrow> isl (returned (RenderPoundifdef sys input output))
    | Some f \<Rightarrow>
        (case returned (RenderPoundifdef sys input output) of
           Inl err \<Rightarrow> closed f
         | Inr writer \<Rightarrow> writer = f \<and> \<not> closed f \<and> offset f = 0))"
  by (simp add: RenderPoundifdef_def file_Seek_def file_Write_def file_Close_def Let_def
        split: sum.splits option.splits prod.splits)

text \<open>
  C9. For every byte sequence \<open>b\<close>, the stream made by \<open>NewSeekCloser b\<close> is positioned at
  index 0, so that all of \<open>b\<close> is readable; and any number \<open>n\<close> of calls of \<open>Close\<close>
  return \<^verbatim>\<open>nil\<close> each time and leave the stream, contents and position, as it was.
\<close>

theorem NewSeekCloser_start_Close_noop:
  "index (NewSeekCloser b) = 0
   \<and> readable (NewSeekCloser b) = b
   \<and> Close_times n (NewSeekCloser b) = (replicate n None, NewSeekCloser b)
   \<and> readable (snd (Close_times n (NewSeekCloser b))) = b"
  by (simp add: Close_times_eq NewSeekCloser_def readable_def)

end
